theory Spec2Isabelle
  imports Complex_Main "HOL-Library.Sublist" "HOL-Library.Multiset" "HOL-Library.List_Lexorder"
    "HOL-Library.Product_Lexorder"
begin

section \<open>Values of the dashboard's data frame\<close>

text \<open>
  The program (\<^verbatim>\<open>app.py\<close>) is a dashboard over one pandas data frame of laptop listings.
  A Python \<^verbatim>\<open>str\<close> is a sequence of Unicode code points, so it is modelled as a list of
  code points: the rupee sign of the price pattern is the single code point 8377, which no
  single 8-bit character could hold.
\<close>

type_synonym pystr = "nat list"

definition ustr :: "string \<Rightarrow> pystr" where
  "ustr s = map of_char s"

definition rupee :: nat where
  "rupee = 8377"

definition All_sentinel :: pystr where
  "All_sentinel = ustr ''All''"

text \<open>
  A cell of a numeric (float64) column: a finite number, an infinity or NaN. A finite
  number is held by its exact value, a rational. The arithmetic of the aggregator rounds
  every result to the nearest double, as the machine does; the two zeros of the machine are
  one value here.
\<close>

datatype pyfloat = Fin rat | PInf | NInf | NaN

text \<open>The comparison \<^verbatim>\<open>a <= b\<close> of two floats; every comparison with NaN is false.\<close>

fun fle :: "pyfloat \<Rightarrow> pyfloat \<Rightarrow> bool" where
  "fle NaN _ = False"
| "fle _ NaN = False"
| "fle NInf _ = True"
| "fle _ PInf = True"
| "fle (Fin a) (Fin b) = (a \<le> b)"
| "fle PInf _ = False"
| "fle _ NInf = False"

text \<open>A calendar date (the time of day plays no part in the program).\<close>

datatype timestamp = Timestamp (ts_year: int) (ts_month: nat) (ts_day: nat)

text \<open>
  One row of the data frame. The three columns that preprocessing retypes are type
  parameters: in the frame read from the file they hold raw cells, after preprocessing
  \<open>price\<close> and \<open>rating\<close> are float64 columns and \<open>date\<close> is a datetime column, whose missing
  value (NaT) is \<open>None\<close>.
\<close>

record ('p, 'r, 'd) row =
  brand :: pystr
  model :: pystr
  platform :: pystr
  price :: 'p
  city :: pystr
  rating :: 'r
  date :: 'd

text \<open>
  A data frame: its rows in index order, and whether it has the two columns the program
  tests for (\<^verbatim>\<open>'rating' in df.columns\<close>, \<^verbatim>\<open>'date' in df.columns\<close>). The field of an
  absent column is never read.
\<close>

record 'a frame =
  rating_col :: bool
  date_col :: bool
  rows :: "'a list"

type_synonym listing = "(pyfloat, pyfloat, timestamp option) row"
type_synonym table = "listing frame"

section \<open>Filter engine (\<^verbatim>\<open>main\<close>, lines 264--278)\<close>

text \<open>The values of the four sidebar widgets.\<close>

record criteria =
  selected_brands :: "pystr list"
  price_range :: "int \<times> int"
  selected_platforms :: "pystr list"
  selected_city :: pystr

text \<open>Boolean-mask indexing \<^verbatim>\<open>df[mask]\<close>: the rows whose mask is true, in index order.\<close>

definition mask_rows :: "('a \<Rightarrow> bool) \<Rightarrow> 'a frame \<Rightarrow> 'a frame" where
  "mask_rows P df = df\<lparr>rows := filter P (rows df)\<rparr>"

definition brand_ok :: "criteria \<Rightarrow> listing \<Rightarrow> bool" where
  "brand_ok c r = (brand r \<in> set (selected_brands c))"

definition price_ok :: "criteria \<Rightarrow> listing \<Rightarrow> bool" where
  "price_ok c r = (fle (Fin (of_int (fst (price_range c)))) (price r) \<and>
                   fle (price r) (Fin (of_int (snd (price_range c)))))"

definition platform_ok :: "criteria \<Rightarrow> listing \<Rightarrow> bool" where
  "platform_ok c r = (platform r \<in> set (selected_platforms c))"

definition city_ok :: "criteria \<Rightarrow> listing \<Rightarrow> bool" where
  "city_ok c r = (city r = selected_city c)"

definition brand_filter :: "criteria \<Rightarrow> table \<Rightarrow> table" where
  "brand_filter c df =
     (if All_sentinel \<notin> set (selected_brands c) then mask_rows (brand_ok c) df else df)"

definition price_filter :: "criteria \<Rightarrow> table \<Rightarrow> table" where
  "price_filter c df = mask_rows (price_ok c) df"

definition platform_filter :: "criteria \<Rightarrow> table \<Rightarrow> table" where
  "platform_filter c df =
     (if All_sentinel \<notin> set (selected_platforms c) then mask_rows (platform_ok c) df else df)"

definition city_filter :: "criteria \<Rightarrow> table \<Rightarrow> table" where
  "city_filter c df =
     (if selected_city c \<noteq> All_sentinel then mask_rows (city_ok c) df else df)"

text \<open>The four steps in the order \<^verbatim>\<open>main\<close> applies them to \<^verbatim>\<open>filtered_df\<close>.\<close>

definition apply_filters :: "table \<Rightarrow> criteria \<Rightarrow> table" where
  "apply_filters df c = city_filter c (platform_filter c (price_filter c (brand_filter c df)))"

text \<open>The predicate each step tests, \<open>True\<close> on every row when the step is switched off.\<close>

definition brand_active :: "criteria \<Rightarrow> listing \<Rightarrow> bool" where
  "brand_active c r = (All_sentinel \<in> set (selected_brands c) \<or> brand_ok c r)"

definition platform_active :: "criteria \<Rightarrow> listing \<Rightarrow> bool" where
  "platform_active c r = (All_sentinel \<in> set (selected_platforms c) \<or> platform_ok c r)"

definition city_active :: "criteria \<Rightarrow> listing \<Rightarrow> bool" where
  "city_active c r = (selected_city c = All_sentinel \<or> city_ok c r)"

definition survives :: "criteria \<Rightarrow> listing \<Rightarrow> bool" where
  "survives c r = (brand_active c r \<and> price_ok c r \<and> platform_active c r \<and> city_active c r)"

text \<open>The four filter steps of one criteria value, and running a sequence of steps.\<close>

definition filter_steps :: "criteria \<Rightarrow> (table \<Rightarrow> table) list" where
  "filter_steps c = [brand_filter c, price_filter c, platform_filter c, city_filter c]"

definition run_steps :: "(table \<Rightarrow> table) list \<Rightarrow> table \<Rightarrow> table" where
  "run_steps fs df = fold (\<lambda>f d. f d) fs df"

section \<open>Preprocessor (\<^verbatim>\<open>preprocess_data\<close>, lines 71--87)\<close>

text \<open>
  A cell of a column as \<^verbatim>\<open>read_csv\<close> delivers it: a string or a number (a missing
  value is the number NaN). The \<open>date\<close> column may also be a datetime column already.
\<close>

datatype cell = Str pystr | Num pyfloat

datatype dcell = Obj cell | Dt "timestamp option"

type_synonym raw_listing = "(cell, cell, dcell) row"
type_synonym raw_table = "raw_listing frame"

datatype py_error = KeyError pystr | ValueError | OverflowError

subsection \<open>The numeric parser behind \<^verbatim>\<open>pd.to_numeric\<close>\<close>

text \<open>
  \<^verbatim>\<open>pd.to_numeric\<close> hands every string to the library's \<^verbatim>\<open>floatify\<close>, which runs the
  scanner \<^verbatim>\<open>precise_xstrtod\<close> (decimal point \<^verbatim>\<open>.\<close>, exponent letter \<^verbatim>\<open>E\<close> in either
  case, no thousands separator, trailing white space skipped) and demands that the scan
  ends at the end of the string; when the scan fails, the spellings of infinity are
  tried. The scanner is modelled on exact rationals: overflow and the rounding of the
  result to a double are not part of the model.
\<close>

definition is_digit :: "nat \<Rightarrow> bool" where
  "is_digit c = (48 \<le> c \<and> c \<le> 57)"

definition is_space :: "nat \<Rightarrow> bool" where
  "is_space c = (c = 32 \<or> (9 \<le> c \<and> c \<le> 13))"

definition digits_val :: "pystr \<Rightarrow> nat" where
  "digits_val ds = foldl (\<lambda>a c. 10 * a + (c - 48)) 0 ds"

definition pow10 :: "int \<Rightarrow> rat" where
  "pow10 e = (if 0 \<le> e then 10 ^ nat e else 1 / 10 ^ nat (- e))"

text \<open>An optional sign: \<open>True\<close> for a minus.\<close>

fun take_sign :: "pystr \<Rightarrow> bool \<times> pystr" where
  "take_sign [] = (False, [])"
| "take_sign (c # cs) =
     (if c = 45 then (True, cs) else if c = 43 then (False, cs) else (False, c # cs))"

text \<open>The fraction after the digits of the integer part: its digits and the rest.\<close>

fun take_fraction :: "pystr \<Rightarrow> pystr \<times> pystr" where
  "take_fraction [] = ([], [])"
| "take_fraction (c # cs) =
     (if c = 46 then (takeWhile is_digit cs, dropWhile is_digit cs) else ([], c # cs))"

text \<open>
  The exponent: the letter, an optional sign and digits. When no digit follows, the
  scanner steps back and the letter is left unread.
\<close>

fun take_exponent :: "pystr \<Rightarrow> int \<times> pystr" where
  "take_exponent [] = (0, [])"
| "take_exponent (c # cs) =
     (if c = 101 \<or> c = 69 then
        (let (neg, t) = take_sign cs; ed = takeWhile is_digit t
         in if ed = [] then (0, c # cs)
            else ((if neg then - int (digits_val ed) else int (digits_val ed)),
                  dropWhile is_digit t))
      else (0, c # cs))"

definition xstrtod :: "pystr \<Rightarrow> rat option" where
  "xstrtod s =
     (let (neg, s1) = take_sign (dropWhile is_space s);
          ip = takeWhile is_digit s1;
          (fp, s3) = take_fraction (dropWhile is_digit s1)
      in if ip = [] \<and> fp = [] then None
         else (let (e, s4) = take_exponent s3
               in if dropWhile is_space s4 = []
                  then Some ((if neg then - 1 else 1) * of_nat (digits_val (ip @ fp)) *
                             pow10 (e - int (length fp)))
                  else None))"

definition lower :: "pystr \<Rightarrow> pystr" where
  "lower s = map (\<lambda>c. if 65 \<le> c \<and> c \<le> 90 then c + 32 else c) s"

definition floatify :: "pystr \<Rightarrow> pyfloat" where
  "floatify s =
     (case xstrtod s of
        Some q \<Rightarrow> Fin q
      | None \<Rightarrow>
          (if lower s \<in> set [ustr ''inf'', ustr ''+inf'', ustr ''infinity'', ustr ''+infinity'']
           then PInf
           else if lower s \<in> set [ustr ''-inf'', ustr ''-infinity''] then NInf
           else NaN))"

subsection \<open>\<^verbatim>\<open>astype(str)\<close> on a number\<close>

text \<open>
  Python prints a float with the digits that read back as the same float. In the model a
  finite number is printed in positional notation with all the digits of its decimal
  expansion (every double has a finite one), and at least one digit after the point.
\<close>

fun nat_digits :: "nat \<Rightarrow> pystr" where
  "nat_digits n = (if n < 10 then [48 + n] else nat_digits (n div 10) @ [48 + n mod 10])"

definition is_integer :: "rat \<Rightarrow> bool" where
  "is_integer q = (of_int \<lfloor>q\<rfloor> = q)"

text \<open>The least number of decimal places that hold \<open>q\<close>, searched from \<open>k\<close> with fuel.\<close>

fun find_scale :: "nat \<Rightarrow> nat \<Rightarrow> rat \<Rightarrow> nat" where
  "find_scale 0 k q = k"
| "find_scale (Suc n) k q = (if is_integer (q * 10 ^ k) then k else find_scale n (Suc k) q)"

definition float_scale :: "rat \<Rightarrow> nat" where
  "float_scale q = find_scale (nat (snd (quotient_of q))) 0 q"

definition fin_str :: "rat \<Rightarrow> pystr" where
  "fin_str q =
     (let k = float_scale \<bar>q\<bar>;
          ds = nat_digits (nat \<lfloor>\<bar>q\<bar> * 10 ^ k\<rfloor>);
          padded = replicate (Suc k - length ds) 48 @ ds;
          ip = take (length padded - k) padded;
          fp = drop (length padded - k) padded
      in (if q < 0 then [45] else []) @ ip @ [46] @ (if fp = [] then [48] else fp))"

fun float_str :: "pyfloat \<Rightarrow> pystr" where
  "float_str (Fin q) = fin_str q"
| "float_str PInf = ustr ''inf''"
| "float_str NInf = ustr ''-inf''"
| "float_str NaN = ustr ''nan''"

subsection \<open>The column operations\<close>

definition astype_str :: "cell \<Rightarrow> pystr" where
  "astype_str c = (case c of Str s \<Rightarrow> s | Num f \<Rightarrow> float_str f)"

text \<open>\<^verbatim>\<open>.str.replace(..., '', regex=True)\<close> with the character class of the rupee sign and
  the comma: every occurrence of either goes.\<close>

definition strip_currency :: "pystr \<Rightarrow> pystr" where
  "strip_currency s = filter (\<lambda>c. c \<noteq> rupee \<and> c \<noteq> 44) s"

text \<open>The whole right-hand side of line 77, on one cell.\<close>

definition clean_price :: "cell \<Rightarrow> pyfloat" where
  "clean_price c = floatify (strip_currency (astype_str c))"

text \<open>\<^verbatim>\<open>pd.to_numeric(..., errors='coerce')\<close> on one cell: a number passes through.\<close>

definition to_numeric :: "cell \<Rightarrow> pyfloat" where
  "to_numeric c = (case c of Str s \<Rightarrow> floatify s | Num f \<Rightarrow> f)"

text \<open>
  \<^verbatim>\<open>pd.to_datetime(..., errors='coerce')\<close> on one cell: a datetime passes through. How
  the library reads the date out of any other value is a parameter \<open>parse\<close> of the model
  (\<open>None\<close> where it fails); nothing below depends on it.
\<close>

definition to_datetime :: "(cell \<Rightarrow> timestamp option) \<Rightarrow> dcell \<Rightarrow> timestamp option" where
  "to_datetime parse c = (case c of Dt d \<Rightarrow> d | Obj x \<Rightarrow> parse x)"

definition isna :: "pyfloat \<Rightarrow> bool" where
  "isna f = (f = NaN)"

definition set_price :: "('p \<Rightarrow> 'q) \<Rightarrow> ('p, 'r, 'd) row \<Rightarrow> ('q, 'r, 'd) row" where
  "set_price f r = \<lparr>brand = brand r, model = model r, platform = platform r,
     price = f (price r), city = city r, rating = rating r, date = date r\<rparr>"

definition set_rating :: "('r \<Rightarrow> 'q) \<Rightarrow> ('p, 'r, 'd) row \<Rightarrow> ('p, 'q, 'd) row" where
  "set_rating f r = \<lparr>brand = brand r, model = model r, platform = platform r,
     price = price r, city = city r, rating = f (rating r), date = date r\<rparr>"

definition set_date :: "('d \<Rightarrow> 'q) \<Rightarrow> ('p, 'r, 'd) row \<Rightarrow> ('p, 'r, 'q) row" where
  "set_date f r = \<lparr>brand = brand r, model = model r, platform = platform r,
     price = price r, city = city r, rating = rating r, date = f (date r)\<rparr>"

definition map_rows :: "('a \<Rightarrow> 'b) \<Rightarrow> 'a frame \<Rightarrow> 'b frame" where
  "map_rows f df = \<lparr>rating_col = rating_col df, date_col = date_col df, rows = map f (rows df)\<rparr>"

text \<open>
  \<^verbatim>\<open>preprocess_data\<close>. An empty frame is returned as it is. Otherwise the price column is
  rewritten (line 77), then the rating column (line 80; \<^verbatim>\<open>df['rating']\<close> raises
  \<^verbatim>\<open>KeyError\<close> when the frame has no such column), the rows with a missing price are
  dropped (line 81), and the date column is converted when the frame has one (lines
  84--85); the date field of a frame without the column is set to \<open>None\<close>.
\<close>

definition preprocess_data :: "(cell \<Rightarrow> timestamp option) \<Rightarrow> raw_table \<Rightarrow> py_error + table" where
  "preprocess_data parse df =
     (if rows df = [] then Inr (map_rows (set_date (\<lambda>_. None) \<circ> set_rating to_numeric \<circ> set_price clean_price) df)
      else
        let df1 = map_rows (set_price clean_price) df
        in if \<not> rating_col df1 then Inl (KeyError (ustr ''rating''))
           else
             let df2 = map_rows (set_rating to_numeric) df1;
                 df3 = mask_rows (\<lambda>r. \<not> isna (price r)) df2
             in if date_col df3 then Inr (map_rows (set_date (to_datetime parse)) df3)
                else Inr (map_rows (set_date (\<lambda>_. None)) df3))"

text \<open>
  What \<^verbatim>\<open>preprocess_data\<close> makes of one row that it keeps, and the rows it drops: those
  whose price is missing after line 77.
\<close>

definition clean_row :: "(cell \<Rightarrow> timestamp option) \<Rightarrow> bool \<Rightarrow> raw_listing \<Rightarrow> listing" where
  "clean_row parse has_date r =
     \<lparr>brand = brand r, model = model r, platform = platform r,
      price = clean_price (price r), city = city r, rating = to_numeric (rating r),
      date = (if has_date then to_datetime parse (date r) else None)\<rparr>"

definition unparsable :: "raw_listing \<Rightarrow> bool" where
  "unparsable r = isna (clean_price (price r))"

text \<open>
  In the words of the specification, a price is non-numeric after stripping when the cell
  is a string that is no number once the rupee signs and the commas are taken out, or when
  the cell is a missing number. The preprocessor is compared with this predicate.
\<close>

definition non_numeric_price :: "raw_listing \<Rightarrow> bool" where
  "non_numeric_price r =
     (case price r of Str s \<Rightarrow> floatify (strip_currency s) = NaN | Num f \<Rightarrow> f = NaN)"



section \<open>The price slider of \<^verbatim>\<open>main\<close> (lines 238--245)\<close>

text \<open>
  \<^verbatim>\<open>Series.min()\<close> and \<^verbatim>\<open>Series.max()\<close> skip missing values and are NaN on a column
  without a value; Python's \<^verbatim>\<open>int\<close> truncates towards zero and raises on NaN
  (\<^verbatim>\<open>ValueError\<close>) and on an infinity (\<^verbatim>\<open>OverflowError\<close>).
\<close>

definition col_min :: "pyfloat list \<Rightarrow> pyfloat" where
  "col_min xs =
     (case filter (\<lambda>f. \<not> isna f) xs of
        [] \<Rightarrow> NaN
      | y # ys \<Rightarrow> foldl (\<lambda>a b. if fle b a then b else a) y ys)"

definition col_max :: "pyfloat list \<Rightarrow> pyfloat" where
  "col_max xs =
     (case filter (\<lambda>f. \<not> isna f) xs of
        [] \<Rightarrow> NaN
      | y # ys \<Rightarrow> foldl (\<lambda>a b. if fle a b then b else a) y ys)"

definition trunc :: "rat \<Rightarrow> int" where
  "trunc q = (if 0 \<le> q then \<lfloor>q\<rfloor> else \<lceil>q\<rceil>)"

fun py_int :: "pyfloat \<Rightarrow> py_error + int" where
  "py_int (Fin q) = Inr (trunc q)"
| "py_int NaN = Inl ValueError"
| "py_int PInf = Inl OverflowError"
| "py_int NInf = Inl OverflowError"

text \<open>
  \<^verbatim>\<open>min_price, max_price = int(df['price'].min()), int(df['price'].max())\<close>: the two ends
  of the slider, which are also its default value.
\<close>

definition full_price_range :: "table \<Rightarrow> py_error + (int \<times> int)" where
  "full_price_range df =
     (case py_int (col_min (map price (rows df))) of
        Inl e \<Rightarrow> Inl e
      | Inr lo \<Rightarrow>
          (case py_int (col_max (map price (rows df))) of
             Inl e \<Rightarrow> Inl e
           | Inr hi \<Rightarrow> Inr (lo, hi)))"

text \<open>The criteria with the sentinel in every selection and a given price interval.\<close>

definition all_criteria :: "int \<times> int \<Rightarrow> criteria" where
  "all_criteria pr =
     \<lparr>selected_brands = [All_sentinel], price_range = pr,
      selected_platforms = [All_sentinel], selected_city = All_sentinel\<rparr>"

section \<open>Aggregator (\<^verbatim>\<open>identify_cheapest_platforms\<close>, lines 203--212)\<close>

subsection \<open>float64 arithmetic\<close>

text \<open>
  A double has a significand of 53 bits and a binary exponent from -1022 to 1023. The
  result of an operation is the exact result rounded to the nearest double, a tie going to
  the double with the even significand; a result of magnitude \<open>2 ^ 1024\<close> or more after
  rounding is an infinity, and below \<open>2 ^ -1022\<close> the doubles are \<open>2 ^ -1074\<close> apart.
\<close>

definition round_half_even :: "rat \<Rightarrow> int" where
  "round_half_even x =
     (let n = \<lfloor>x\<rfloor>; f = x - of_int n
      in if f < 1 / 2 then n else if 1 / 2 < f then n + 1 else if even n then n else n + 1)"

text \<open>
  How often a number from \<open>2 ^ 53\<close> on is halved to come below \<open>2 ^ 53\<close>, and how often
  a number below \<open>2 ^ 52\<close> is doubled to reach \<open>2 ^ 52\<close>; the second count stops at the
  given bound, which is where the doubles stop getting denser.
\<close>

fun halvings :: "nat \<Rightarrow> rat \<Rightarrow> nat" where
  "halvings n x = (if n = 0 \<or> x < 2 ^ 53 then 0 else Suc (halvings (n - 1) (x / 2)))"

fun doublings :: "nat \<Rightarrow> rat \<Rightarrow> nat" where
  "doublings n x = (if n = 0 \<or> 2 ^ 52 \<le> x then 0 else Suc (doublings (n - 1) (x * 2)))"

text \<open>The double nearest to a positive number.\<close>

definition fl_pos :: "rat \<Rightarrow> pyfloat" where
  "fl_pos x =
     (if 2 ^ 1024 \<le> x then PInf
      else if 2 ^ 53 \<le> x then
        (let k = halvings 971 x; v = of_int (round_half_even (x / 2 ^ k)) * 2 ^ k
         in if 2 ^ 1024 \<le> v then PInf else Fin v)
      else
        (let k = doublings 1074 x in Fin (of_int (round_half_even (x * 2 ^ k)) / 2 ^ k)))"

fun fneg :: "pyfloat \<Rightarrow> pyfloat" where
  "fneg (Fin a) = Fin (- a)"
| "fneg PInf = NInf"
| "fneg NInf = PInf"
| "fneg NaN = NaN"

text \<open>The double nearest to a number.\<close>

definition fl :: "rat \<Rightarrow> pyfloat" where
  "fl x = (if x = 0 then Fin 0 else if 0 < x then fl_pos x else fneg (fl_pos (- x)))"

text \<open>The four operations \<^verbatim>\<open>+\<close>, \<^verbatim>\<open>-\<close>, \<^verbatim>\<open>*\<close> and \<^verbatim>\<open>/\<close> of float64.\<close>

fun fadd :: "pyfloat \<Rightarrow> pyfloat \<Rightarrow> pyfloat" where
  "fadd NaN _ = NaN"
| "fadd _ NaN = NaN"
| "fadd (Fin a) (Fin b) = fl (a + b)"
| "fadd PInf NInf = NaN"
| "fadd NInf PInf = NaN"
| "fadd PInf _ = PInf"
| "fadd _ PInf = PInf"
| "fadd NInf _ = NInf"
| "fadd _ NInf = NInf"

definition fsub :: "pyfloat \<Rightarrow> pyfloat \<Rightarrow> pyfloat" where
  "fsub x y = fadd x (fneg y)"

fun fmul :: "pyfloat \<Rightarrow> pyfloat \<Rightarrow> pyfloat" where
  "fmul NaN _ = NaN"
| "fmul _ NaN = NaN"
| "fmul (Fin a) (Fin b) = fl (a * b)"
| "fmul (Fin a) y = (if a = 0 then NaN else if 0 < a then y else fneg y)"
| "fmul x (Fin b) = (if b = 0 then NaN else if 0 < b then x else fneg x)"
| "fmul x y = (if x = y then PInf else NInf)"

fun fdiv :: "pyfloat \<Rightarrow> pyfloat \<Rightarrow> pyfloat" where
  "fdiv NaN _ = NaN"
| "fdiv _ NaN = NaN"
| "fdiv (Fin a) (Fin b) =
     (if b = 0 then (if a = 0 then NaN else if 0 < a then PInf else NInf) else fl (a / b))"
| "fdiv (Fin a) y = Fin 0"
| "fdiv x (Fin b) = (if 0 \<le> b then x else fneg x)"
| "fdiv x y = NaN"

text \<open>\<^verbatim>\<open>rint\<close>: the nearest whole number, a tie going to the even one.\<close>

fun rint :: "pyfloat \<Rightarrow> pyfloat" where
  "rint (Fin a) = Fin (of_int (round_half_even a))"
| "rint x = x"

subsection \<open>The reductions of a group\<close>

text \<open>\<^verbatim>\<open>mean\<close> and \<^verbatim>\<open>count\<close> of a column skip missing values, as \<^verbatim>\<open>min\<close> does.\<close>

definition col_count :: "pyfloat list \<Rightarrow> nat" where
  "col_count xs = length (filter (\<lambda>f. \<not> isna f) xs)"

text \<open>
  The mean of a group is computed by the library's \<^verbatim>\<open>group_mean\<close>, which adds the values
  up with a running compensation for the rounding of each addition (Kahan's summation)
  and divides the sum by the count:
  \<^verbatim>\<open>y = val - compensation; t = sumx + y; compensation = t - sumx - y; sumx = t\<close>,
  a compensation that is NaN being put back to zero. One step of that loop, on the pair
  of \<^verbatim>\<open>sumx\<close> and \<^verbatim>\<open>compensation\<close>:
\<close>

definition kahan_step :: "pyfloat \<times> pyfloat \<Rightarrow> pyfloat \<Rightarrow> pyfloat \<times> pyfloat" where
  "kahan_step sc val =
     (let y = fsub val (snd sc);
          t = fadd (fst sc) y;
          c = fsub (fsub t (fst sc)) y
      in (t, if isna c then Fin 0 else c))"

definition col_mean :: "pyfloat list \<Rightarrow> pyfloat" where
  "col_mean xs =
     (let vals = filter (\<lambda>f. \<not> isna f) xs
      in if vals = [] then NaN
         else fdiv (fst (foldl kahan_step (Fin 0, Fin 0) vals)) (fl (of_nat (length vals))))"

text \<open>
  \<^verbatim>\<open>.round(2)\<close> on a float64 column is \<^verbatim>\<open>np.round\<close>: the value is multiplied by 100,
  rounded to a whole number and divided by 100, each step in float64. A column of counts
  is a column of integers, which \<^verbatim>\<open>.round(2)\<close> leaves as it is.
\<close>

definition round2 :: "pyfloat \<Rightarrow> pyfloat" where
  "round2 x = fdiv (rint (fmul x (Fin 100))) (Fin 100)"

record platform_stats =
  stat_platform :: pystr
  avg_price :: pyfloat
  min_price :: pyfloat
  product_count :: nat


text \<open>The reduction of one group: \<^verbatim>\<open>agg({'price': ['mean', 'min', 'count']}).round(2)\<close>.\<close>

definition platform_stat :: "pystr \<times> listing list \<Rightarrow> platform_stats" where
  "platform_stat g =
     \<lparr>stat_platform = fst g,
      avg_price = round2 (col_mean (map price (snd g))),
      min_price = round2 (col_min (map price (snd g))),
      product_count = col_count (map price (snd g))\<rparr>"




section \<open>View builders\<close>

subsection \<open>Rating against price (\<^verbatim>\<open>create_rating_price_scatter\<close>, lines 180--201)\<close>

text \<open>
  What \<^verbatim>\<open>px.scatter\<close> is handed for one row: \<open>x\<close>, \<open>y\<close>, \<open>color\<close>, \<open>size\<close> and the two
  \<open>hover_data\<close> columns. \<^verbatim>\<open>st.warning\<close> is an effect: the builder returns the notices it
  shows together with its result, \<open>None\<close> for Python's \<^verbatim>\<open>None\<close>.
\<close>

record scatter_point =
  sp_x :: pyfloat
  sp_y :: pyfloat
  sp_color :: pystr
  sp_size :: pyfloat
  sp_hover_brand :: pystr
  sp_hover_model :: pystr

definition scatter_point_of :: "listing \<Rightarrow> scatter_point" where
  "scatter_point_of r =
     \<lparr>sp_x = rating r, sp_y = price r, sp_color = platform r, sp_size = price r,
      sp_hover_brand = brand r, sp_hover_model = model r\<rparr>"

definition rating_warning :: string where
  "rating_warning = ''Rating data not available for scatter plot analysis.''"

definition create_rating_price_scatter :: "table \<Rightarrow> string list \<times> scatter_point list option" where
  "create_rating_price_scatter df =
     (if \<not> rating_col df \<or> list_all (\<lambda>r. isna (rating r)) (rows df)
      then ([rating_warning], None)
      else ([], Some (map scatter_point_of (rows df))))"

subsection \<open>Price trend (\<^verbatim>\<open>create_price_trend_chart\<close>, lines 130--163)\<close>

text \<open>
  \<^verbatim>\<open>np.random.randint\<close> draws from the library's global generator, and every draw
  advances it. The generator is modelled by the sequence of raw numbers it delivers next;
  a draw from the half-open range reduces the next raw number into the range, and the
  generator that is left delivers the numbers after it. How the library turns raw bits
  into a number of the range is not modelled.
\<close>

type_synonym rng = "nat \<Rightarrow> nat"

definition randint :: "int \<Rightarrow> int \<Rightarrow> nat \<Rightarrow> rng \<Rightarrow> int list \<times> rng" where
  "randint low high n g =
     (map (\<lambda>i. low + int (g i mod nat (high - low))) [0..<n], \<lambda>i. g (i + n))"







section \<open>Example frames\<close>

text \<open>
  A frame as read from the file: a price with rupee sign and separators, a price that is
  no number, and a negative price.
\<close>

definition ex_row1 :: raw_listing where
  "ex_row1 = \<lparr>brand = ustr ''Dell'', model = ustr ''Inspiron 15'', platform = ustr ''Amazon'',
     price = Str (rupee # ustr ''1,23,456''), city = ustr ''Bhopal'',
     rating = Str (ustr ''4.5''), date = Obj (Num NaN)\<rparr>"

definition ex_row2 :: raw_listing where
  "ex_row2 = \<lparr>brand = ustr ''HP'', model = ustr ''Pavilion'', platform = ustr ''Flipkart'',
     price = Str (ustr ''N/A''), city = ustr ''Bhopal'',
     rating = Str (ustr ''good''), date = Obj (Num NaN)\<rparr>"

definition ex_row3 :: raw_listing where
  "ex_row3 = \<lparr>brand = ustr ''Asus'', model = ustr ''Vivobook'', platform = ustr ''Croma'',
     price = Str (ustr ''-500''), city = ustr ''Indore'',
     rating = Num NaN, date = Obj (Num NaN)\<rparr>"

definition ex_raw :: raw_table where
  "ex_raw = \<lparr>rating_col = True, date_col = False, rows = [ex_row1, ex_row2, ex_row3]\<rparr>"

definition no_dates :: "cell \<Rightarrow> timestamp option" where
  "no_dates c = None"

text \<open>A frame whose highest price has a fraction.\<close>

definition frac_row1 :: raw_listing where
  "frac_row1 = \<lparr>brand = ustr ''Dell'', model = ustr ''Inspiron 15'', platform = ustr ''Amazon'',
     price = Str (ustr ''40000''), city = ustr ''Bhopal'',
     rating = Str (ustr ''4.5''), date = Obj (Num NaN)\<rparr>"

definition frac_row2 :: raw_listing where
  "frac_row2 = \<lparr>brand = ustr ''HP'', model = ustr ''Pavilion'', platform = ustr ''Flipkart'',
     price = Str (rupee # ustr ''49,999.50''), city = ustr ''Bhopal'',
     rating = Str (ustr ''4.1''), date = Obj (Num NaN)\<rparr>"

definition frac_raw :: raw_table where
  "frac_raw = \<lparr>rating_col = True, date_col = False, rows = [frac_row1, frac_row2]\<rparr>"

text \<open>What preprocessing makes of it.\<close>

definition frac_table :: table where
  "frac_table = \<lparr>rating_col = True, date_col = False,
     rows = [clean_row no_dates False frac_row1, clean_row no_dates False frac_row2]\<rparr>"

text \<open>The same frame with every rating missing, and a generator that counts.\<close>

definition unrated_table :: table where
  "unrated_table = map_rows (set_rating (\<lambda>_. NaN)) frac_table"






text \<open>
  A frame as read from the file whose price column holds strings and numbers: a decorated
  price, a price that is no number, the number 45000 and a missing number.
\<close>

definition num_row :: raw_listing where
  "num_row = \<lparr>brand = ustr ''Lenovo'', model = ustr ''Ideapad'', platform = ustr ''Amazon'',
     price = Num (Fin 45000), city = ustr ''Indore'',
     rating = Num (Fin 4), date = Obj (Num NaN)\<rparr>"

definition nan_row :: raw_listing where
  "nan_row = \<lparr>brand = ustr ''Acer'', model = ustr ''Aspire'', platform = ustr ''Croma'',
     price = Num NaN, city = ustr ''Indore'',
     rating = Num (Fin 3), date = Obj (Num NaN)\<rparr>"

definition mixed_raw :: raw_table where
  "mixed_raw = \<lparr>rating_col = True, date_col = False,
     rows = [ex_row1, ex_row2, num_row, nan_row]\<rparr>"

text \<open>The frame \<open>ex_raw\<close> read from a file that has no rating column.\<close>

definition unrated_raw :: raw_table where
  "unrated_raw = \<lparr>rating_col = False, date_col = False, rows = [ex_row1, ex_row2, ex_row3]\<rparr>"

text \<open>Criteria that select one brand and one city, with a wide price interval.\<close>

definition dell_criteria :: criteria where
  "dell_criteria = \<lparr>selected_brands = [ustr ''Dell''], price_range = (0, 100000),
     selected_platforms = [All_sentinel], selected_city = ustr ''Bhopal''\<rparr>"

section \<open>Properties of the filter engine\<close>

lemma mask_rows_rows [simp]: "rows (mask_rows P df) = filter P (rows df)"
  by (simp add: mask_rows_def)

lemma mask_rows_cols [simp]:
  "rating_col (mask_rows P df) = rating_col df" "date_col (mask_rows P df) = date_col df"
  by (simp_all add: mask_rows_def)

lemma mask_rows_True: "mask_rows (\<lambda>_. True) df = df"
  by (simp add: mask_rows_def)

lemma mask_rows_mask_rows: "mask_rows P (mask_rows Q df) = mask_rows (\<lambda>r. Q r \<and> P r) df"
  by (simp add: mask_rows_def)

lemma mask_rows_cong: "(\<And>r. r \<in> set (rows df) \<Longrightarrow> P r = Q r) \<Longrightarrow> mask_rows P df = mask_rows Q df"
  unfolding mask_rows_def by (simp cong: filter_cong)

lemma brand_filter_mask: "brand_filter c df = mask_rows (brand_active c) df"
proof (cases "All_sentinel \<in> set (selected_brands c)")
  case True
  then have "mask_rows (brand_active c) df = mask_rows (\<lambda>_. True) df"
    by (intro mask_rows_cong) (simp add: brand_active_def)
  with True show ?thesis by (simp add: brand_filter_def mask_rows_True)
next
  case False
  then have "mask_rows (brand_active c) df = mask_rows (brand_ok c) df"
    by (intro mask_rows_cong) (simp add: brand_active_def)
  with False show ?thesis by (simp add: brand_filter_def)
qed

lemma platform_filter_mask: "platform_filter c df = mask_rows (platform_active c) df"
proof (cases "All_sentinel \<in> set (selected_platforms c)")
  case True
  then have "mask_rows (platform_active c) df = mask_rows (\<lambda>_. True) df"
    by (intro mask_rows_cong) (simp add: platform_active_def)
  with True show ?thesis by (simp add: platform_filter_def mask_rows_True)
next
  case False
  then have "mask_rows (platform_active c) df = mask_rows (platform_ok c) df"
    by (intro mask_rows_cong) (simp add: platform_active_def)
  with False show ?thesis by (simp add: platform_filter_def)
qed

lemma city_filter_mask: "city_filter c df = mask_rows (city_active c) df"
proof (cases "selected_city c = All_sentinel")
  case True
  then have "mask_rows (city_active c) df = mask_rows (\<lambda>_. True) df"
    by (intro mask_rows_cong) (simp add: city_active_def)
  with True show ?thesis by (simp add: city_filter_def mask_rows_True)
next
  case False
  then have "mask_rows (city_active c) df = mask_rows (city_ok c) df"
    by (intro mask_rows_cong) (simp add: city_active_def)
  with False show ?thesis by (simp add: city_filter_def)
qed

lemma apply_filters_mask: "apply_filters df c = mask_rows (survives c) df"
proof -
  have "apply_filters df c =
      mask_rows (\<lambda>r. ((brand_active c r \<and> price_ok c r) \<and> platform_active c r) \<and> city_active c r) df"
    by (simp add: apply_filters_def brand_filter_mask platform_filter_mask city_filter_mask
        price_filter_def mask_rows_mask_rows)
  also have "\<dots> = mask_rows (survives c) df"
    by (intro mask_rows_cong) (auto simp add: survives_def)
  finally show ?thesis .
qed

lemma mask_rows_commute: "mask_rows P (mask_rows Q df) = mask_rows Q (mask_rows P df)"
  by (simp add: mask_rows_mask_rows conj_commute)

lemma filter_steps_masks:
  "filter_steps c = map mask_rows [brand_active c, price_ok c, platform_active c, city_active c]"
  by (simp add: filter_steps_def brand_filter_mask platform_filter_mask city_filter_mask
      price_filter_def fun_eq_iff)

lemma filter_steps_commute:
  assumes "f \<in> set (filter_steps c)" "g \<in> set (filter_steps c)"
  shows "(\<lambda>d. f d) \<circ> (\<lambda>d. g d) = (\<lambda>d. g d) \<circ> (\<lambda>d. f d)"
proof -
  from assms obtain P Q where "f = mask_rows P" "g = mask_rows Q"
    unfolding filter_steps_masks by auto
  then show ?thesis
    by (simp add: fun_eq_iff mask_rows_commute)
qed

lemma run_steps_filter_steps: "run_steps (filter_steps c) df = apply_filters df c"
  by (simp add: run_steps_def filter_steps_def apply_filters_def)

text \<open>
  C10. The filter engine only removes rows: the rows of the filtered frame are a
  subsequence of the rows of the input (every surviving row is an input row with all its
  fields as they were, and the survivors keep their relative order), and the columns of
  the frame stay as they are.
\<close>

theorem filter_only_removes_rows:
  "subseq (rows (apply_filters df c)) (rows df) \<and>
   set (rows (apply_filters df c)) \<subseteq> set (rows df) \<and>
   rating_col (apply_filters df c) = rating_col df \<and>
   date_col (apply_filters df c) = date_col df"
  by (simp add: apply_filters_mask)

text \<open>
  C5. The four filters compose conjunctively: the filtered frame holds exactly the rows
  that satisfy every active predicate, and running the four steps of one criteria value
  in any order gives the frame that \<^verbatim>\<open>main\<close> computes.
\<close>

theorem filters_conjunctive_any_order:
  assumes "mset fs = mset (filter_steps c)"
  shows "rows (apply_filters df c) = filter (survives c) (rows df) \<and>
         (r \<in> set (rows (apply_filters df c)) \<longleftrightarrow>
            r \<in> set (rows df) \<and> brand_active c r \<and> price_ok c r \<and>
            platform_active c r \<and> city_active c r) \<and>
         run_steps fs df = apply_filters df c"
proof -
  have "fold (\<lambda>f d. f d) fs = fold (\<lambda>f d. f d) (filter_steps c)"
  proof (rule fold_multiset_equiv)
    fix f g assume "f \<in> set fs" "g \<in> set fs"
    moreover have "set fs = set (filter_steps c)"
      using assms by (rule mset_eq_setD)
    ultimately have "f \<in> set (filter_steps c)" "g \<in> set (filter_steps c)"
      by simp_all
    then show "(\<lambda>d. f d) \<circ> (\<lambda>d. g d) = (\<lambda>d. g d) \<circ> (\<lambda>d. f d)"
      by (rule filter_steps_commute)
  qed (rule assms)
  then have "run_steps fs df = run_steps (filter_steps c) df"
    by (simp add: run_steps_def)
  then have "run_steps fs df = apply_filters df c"
    by (simp only: run_steps_filter_steps)
  then show ?thesis
    by (auto simp add: apply_filters_mask survives_def)
qed

section \<open>Properties of the preprocessor\<close>

lemma map_rows_rows [simp]: "rows (map_rows f df) = map f (rows df)"
  by (simp add: map_rows_def)

lemma map_rows_cols [simp]:
  "rating_col (map_rows f df) = rating_col df" "date_col (map_rows f df) = date_col df"
  by (simp_all add: map_rows_def)

lemma frame_eqI:
  "rating_col a = rating_col b \<Longrightarrow> date_col a = date_col b \<Longrightarrow> rows a = rows b \<Longrightarrow>
   (a :: 'a frame) = b"
  by simp

lemma price_set_fields [simp]:
  "price (set_price f r) = f (price r)" "price (set_rating g r) = price r"
  "price (set_date h r) = price r"
  by (simp_all add: set_price_def set_rating_def set_date_def)

lemma clean_row_steps:
  "set_date (to_datetime parse) (set_rating to_numeric (set_price clean_price r)) = clean_row parse True r"
  "set_date (\<lambda>_. None) (set_rating to_numeric (set_price clean_price r)) = clean_row parse False r"
  by (simp_all add: set_price_def set_rating_def set_date_def clean_row_def)

lemma filter_map_price:
  "map (set_date (to_datetime parse))
     (filter (\<lambda>r. \<not> isna (price r)) (map (set_rating to_numeric \<circ> set_price clean_price) xs)) =
   map (clean_row parse True) (filter (\<lambda>r. \<not> unparsable r) xs)"
  "map (set_date (\<lambda>_. None))
     (filter (\<lambda>r. \<not> isna (price r)) (map (set_rating to_numeric \<circ> set_price clean_price) xs)) =
   map (clean_row parse False) (filter (\<lambda>r. \<not> unparsable r) xs)"
  by (induction xs) (simp_all add: unparsable_def clean_row_steps)

lemma preprocess_data_rows:
  assumes "rating_col df"
  shows "preprocess_data parse df =
     Inr \<lparr>rating_col = True, date_col = date_col df,
          rows = map (clean_row parse (date_col df)) (filter (\<lambda>r. \<not> unparsable r) (rows df))\<rparr>"
proof (cases "rows df = []")
  case True
  with assms show ?thesis
    by (simp add: preprocess_data_def map_rows_def)
next
  case False
  show ?thesis
  proof (cases "date_col df")
    case True
    with False assms show ?thesis
      by (simp add: preprocess_data_def Let_def map_rows_def mask_rows_def filter_map_price
          clean_row_steps)
  next
    case F: False
    with False assms show ?thesis
      by (simp add: preprocess_data_def Let_def map_rows_def mask_rows_def filter_map_price
          clean_row_steps)
  qed
qed


declare nat_digits.simps [simp del]

lemma digits_val_snoc: "digits_val (xs @ [c]) = 10 * digits_val xs + (c - 48)"
  by (simp add: digits_val_def)

lemma digits_val_nat_digits: "digits_val (nat_digits n) = n"
proof (induction n rule: nat_digits.induct)
  case (1 n)
  show ?case
  proof (cases "n < 10")
    case True
    then show ?thesis by (simp add: nat_digits.simps [of n] digits_val_def)
  next
    case False
    with 1 show ?thesis by (simp add: nat_digits.simps [of n] digits_val_snoc)
  qed
qed

lemma nat_digits_is_digit: "c \<in> set (nat_digits n) \<Longrightarrow> is_digit c"
proof (induction n rule: nat_digits.induct)
  case (1 n)
  show ?case
  proof (cases "n < 10")
    case True
    with 1(2) show ?thesis by (simp add: nat_digits.simps [of n] is_digit_def)
  next
    case False
    with 1 show ?thesis by (auto simp add: nat_digits.simps [of n] is_digit_def)
  qed
qed

lemma nat_digits_nonempty: "nat_digits n \<noteq> []"
  by (subst nat_digits.simps) simp

lemma xstrtod_digits:
  assumes "ds \<noteq> []" and dig: "\<And>c. c \<in> set ds \<Longrightarrow> is_digit c"
  shows "xstrtod ds = Some (of_nat (digits_val ds))"
proof -
  from assms obtain c cs where ds: "ds = c # cs" by (cases ds) auto
  with dig have c: "is_digit c" by simp
  then have nsp: "\<not> is_space c" and nsg: "c \<noteq> 45" "c \<noteq> 43"
    by (auto simp add: is_digit_def is_space_def)
  have tw: "takeWhile is_digit ds = ds" "dropWhile is_digit ds = []"
    using dig by (simp_all add: takeWhile_eq_all_conv)
  have "dropWhile is_space ds = ds" using nsp ds by simp
  moreover have "take_sign ds = (False, ds)" using nsg ds by simp
  ultimately show ?thesis
    using assms(1) by (simp add: xstrtod_def tw pow10_def)
qed

lemma xstrtod_nat_digits: "xstrtod (nat_digits n) = Some (of_nat n)"
  using xstrtod_digits [of "nat_digits n"]
  by (simp add: nat_digits_nonempty nat_digits_is_digit digits_val_nat_digits)

lemma floatify_nat_digits: "floatify (nat_digits n) = Fin (of_nat n)"
  by (simp add: floatify_def xstrtod_nat_digits)

lemmas scan_defs = floatify_def xstrtod_def is_digit_def is_space_def digits_val_def pow10_def
  strip_currency_def ustr_def rupee_def lower_def

lemma ex_prices:
  "clean_price (price ex_row1) = Fin 123456"
  "clean_price (price ex_row2) = NaN"
  "clean_price (price ex_row3) = Fin (- 500)"
  by (simp_all add: ex_row1_def ex_row2_def ex_row3_def clean_price_def astype_str_def scan_defs)

lemma ex_ratings:
  "to_numeric (rating ex_row1) = Fin (9 / 2)"
  "to_numeric (rating ex_row3) = NaN"
  by (simp_all add: ex_row1_def ex_row3_def to_numeric_def scan_defs)

lemma frac_prices:
  "clean_price (price frac_row1) = Fin 40000"
  "clean_price (price frac_row2) = Fin (99999 / 2)"
  by (simp_all add: frac_row1_def frac_row2_def clean_price_def astype_str_def scan_defs)

subsection \<open>Numbers that are printed and read back\<close>

lemma dvd_pow10_bound:
  fixes d :: nat
  assumes "d dvd 10 ^ m"
  shows "d dvd 10 ^ d"
  using assms
proof (induction d rule: less_induct)
  case (less d)
  have d0: "d \<noteq> 0"
  proof
    assume "d = 0"
    with less.prems have "(10::nat) ^ m = 0" by simp
    then show False by simp
  qed
  show ?case
  proof (cases "coprime d 10")
    case True
    then have "coprime d (10 ^ m)" by simp
    from coprime_common_divisor_nat [OF this dvd_refl less.prems] show ?thesis by simp
  next
    case False
    define g where "g = gcd d 10"
    have g: "g dvd d" "g dvd 10" by (simp_all add: g_def)
    have "g \<noteq> 1" using False by (auto simp add: g_def coprime_iff_gcd_eq_1)
    moreover have "g \<noteq> 0" using d0 by (simp add: g_def)
    ultimately have g2: "2 \<le> g" by simp
    define e where "e = d div g"
    have de: "d = g * e" using g(1) by (simp add: e_def)
    have e0: "e \<noteq> 0" using d0 de by auto
    have "e < d" using g2 e0 de by simp
    moreover have "e dvd 10 ^ m" using less.prems de by (metis dvd_mult_right)
    ultimately have "e dvd 10 ^ e" by (rule less.IH)
    with g(2) have "g * e dvd 10 * 10 ^ e" by (rule mult_dvd_mono)
    then have "d dvd 10 ^ Suc e" by (simp add: de)
    moreover have "(10::nat) ^ Suc e dvd 10 ^ d"
      using \<open>e < d\<close> by (intro le_imp_power_dvd) simp
    ultimately show ?thesis by (rule dvd_trans)
  qed
qed

lemma is_integer_of_int [simp]: "is_integer (of_int z)"
  by (simp add: is_integer_def)

lemma is_integerE: "is_integer q \<Longrightarrow> \<exists>z. q = of_int z"
  by (metis is_integer_def)

lemma is_integer_scale_bound:
  assumes "is_integer (q * 10 ^ m)"
  shows "is_integer (q * 10 ^ nat (snd (quotient_of q)))"
proof -
  obtain a d where qd: "quotient_of q = (a, d)" by (cases "quotient_of q")
  then have d: "0 < d" and cop: "coprime a d" and q: "q = of_int a / of_int d"
    by (simp_all add: quotient_of_denom_pos quotient_of_coprime quotient_of_div)
  from assms obtain z where "q * 10 ^ m = of_int z" by (auto dest: is_integerE)
  then have "of_int a / of_int d * 10 ^ m = (of_int z :: rat)" by (simp only: q [symmetric])
  then have "of_int a * 10 ^ m = (of_int z :: rat) * of_int d"
    using d by (simp add: field_simps)
  then have "(of_int (a * 10 ^ m) :: rat) = of_int (z * d)"
    by simp
  then have "a * 10 ^ m = z * d" by (simp only: of_int_eq_iff)
  then have "d dvd a * 10 ^ m" by simp
  with cop have "d dvd 10 ^ m" by (simp add: coprime_dvd_mult_right_iff coprime_commute)
  then have "nat d dvd nat (10 ^ m)" using d by (simp add: nat_dvd_iff)
  then have "nat d dvd 10 ^ m" by (simp add: nat_power_eq)
  then have "nat d dvd 10 ^ nat d" by (rule dvd_pow10_bound)
  then have "int (nat d) dvd int (10 ^ nat d)" by (simp only: int_dvd_int_iff)
  with d have "d dvd 10 ^ nat d" by simp
  then obtain w where w: "10 ^ nat d = d * w" by (auto simp add: dvd_def)
  have "q * 10 ^ nat d = of_int a / of_int d * of_int (10 ^ nat d)" by (simp add: q)
  also have "\<dots> = of_int (a * w)" using d by (simp add: w)
  finally have "is_integer (q * 10 ^ nat d)" by (simp only: is_integer_of_int)
  then show ?thesis by (simp add: qd)
qed

lemma find_scale_is_integer:
  "is_integer (q * 10 ^ (k + n)) \<Longrightarrow> is_integer (q * 10 ^ find_scale n k q)"
  by (induction n arbitrary: k) simp_all

lemma float_scale_is_integer:
  assumes "is_integer (q * 10 ^ m)"
  shows "is_integer (q * 10 ^ float_scale q)"
  unfolding float_scale_def
  using is_integer_scale_bound [OF assms] by (intro find_scale_is_integer) simp





lemma xstrtod_plain:
  assumes ne: "ip \<noteq> []"
    and ipd: "\<And>c. c \<in> set ip \<Longrightarrow> is_digit c"
    and fpd: "\<And>c. c \<in> set fp \<Longrightarrow> is_digit c"
  shows "xstrtod ((if neg then [45] else []) @ ip @ 46 # fp) =
         Some ((if neg then - 1 else 1) * of_nat (digits_val (ip @ fp)) * pow10 (- int (length fp)))"
proof -
  from ne obtain c cs where ip: "ip = c # cs" by (cases ip) auto
  with ipd have "is_digit c" by simp
  then have c: "\<not> is_space c" "c \<noteq> 45" "c \<noteq> 43"
    by (auto simp add: is_digit_def is_space_def)
  have n45: "\<not> is_space 45" "\<not> is_digit 46" by (simp_all add: is_space_def is_digit_def)
  have sp: "dropWhile is_space ((if neg then [45] else []) @ ip @ 46 # fp) =
      (if neg then [45] else []) @ ip @ 46 # fp"
    using c n45 by (simp add: ip)
  have sg: "take_sign ((if neg then [45] else []) @ ip @ 46 # fp) = (neg, ip @ 46 # fp)"
    using c by (simp add: ip)
  have tw: "takeWhile is_digit (ip @ 46 # fp) = ip" "dropWhile is_digit (ip @ 46 # fp) = 46 # fp"
    using ipd n45 by (simp_all add: takeWhile_append2 dropWhile_append2)
  have fr: "takeWhile is_digit fp = fp" "dropWhile is_digit fp = []"
    using fpd by (simp_all add: takeWhile_eq_all_conv)
  show ?thesis
    unfolding xstrtod_def sp sg
    by (simp add: tw fr ne)
qed

lemma fin_str_shape:
  "\<exists>ip fp. fin_str q = (if q < 0 then [45] else []) @ ip @ 46 # fp \<and> ip \<noteq> [] \<and>
     (\<forall>c \<in> set ip. is_digit c) \<and> (\<forall>c \<in> set fp. is_digit c)"
proof -
  define k where "k = float_scale \<bar>q\<bar>"
  define ds where "ds = nat_digits (nat \<lfloor>\<bar>q\<bar> * 10 ^ k\<rfloor>)"
  define padded where "padded = replicate (Suc k - length ds) 48 @ ds"
  define ip where "ip = take (length padded - k) padded"
  define fp where "fp = drop (length padded - k) padded"
  define fp' where "fp' = (if fp = [] then [48] else fp)"
  have d48: "is_digit 48" by (simp add: is_digit_def)
  have pd: "is_digit c" if "c \<in> set padded" for c
  proof -
    from that have "c = 48 \<or> c \<in> set ds" by (auto simp add: padded_def)
    then show ?thesis using d48 by (auto simp add: ds_def intro: nat_digits_is_digit)
  qed
  have lp: "Suc k \<le> length padded" by (simp add: padded_def)
  have "padded \<noteq> []" using lp by auto
  with lp have "ip \<noteq> []" by (simp add: ip_def)
  moreover have "\<forall>c \<in> set ip. is_digit c"
    using pd by (auto simp add: ip_def dest: in_set_takeD)
  moreover have "\<forall>c \<in> set fp'. is_digit c"
    using pd d48 by (auto simp add: fp'_def fp_def dest: in_set_dropD)
  moreover have "fin_str q = (if q < 0 then [45] else []) @ ip @ 46 # fp'"
    unfolding fin_str_def Let_def fp'_def fp_def ip_def padded_def ds_def k_def by simp
  ultimately show ?thesis by blast
qed

lemma strip_currency_digits:
  assumes "\<And>c. c \<in> set s \<Longrightarrow> c = 45 \<or> c = 46 \<or> is_digit c"
  shows "strip_currency s = s"
proof -
  have "c \<noteq> rupee \<and> c \<noteq> 44" if "c \<in> set s" for c
    using assms [OF that] by (auto simp add: rupee_def is_digit_def)
  then show ?thesis by (simp add: strip_currency_def)
qed

lemma clean_price_Num_Fin: "\<exists>q'. clean_price (Num (Fin q)) = Fin q'"
proof -
  from fin_str_shape [of q] obtain ip fp where
    s: "fin_str q = (if q < 0 then [45] else []) @ ip @ 46 # fp" and ne: "ip \<noteq> []"
    and ipd: "\<forall>c \<in> set ip. is_digit c" and fpd: "\<forall>c \<in> set fp. is_digit c"
    by blast
  have "strip_currency (fin_str q) = fin_str q"
    by (rule strip_currency_digits) (use s ipd fpd in \<open>auto split: if_splits\<close>)
  moreover have "\<exists>q'. xstrtod (fin_str q) = Some q'"
    unfolding s using xstrtod_plain [of ip fp "q < 0"] ne ipd fpd by blast
  ultimately show ?thesis
    by (auto simp add: clean_price_def astype_str_def floatify_def)
qed

lemma clean_price_Num_inf:
  "clean_price (Num PInf) = PInf" "clean_price (Num NInf) = NInf" "clean_price (Num NaN) = NaN"
  by (simp_all add: clean_price_def astype_str_def scan_defs)

lemma clean_price_Num_isna: "isna (clean_price (Num f)) \<longleftrightarrow> f = NaN"
proof (cases f)
  case (Fin q)
  with clean_price_Num_Fin [of q] show ?thesis by (auto simp add: isna_def)
qed (simp_all add: clean_price_Num_inf isna_def)







lemma unparsable_iff: "unparsable r \<longleftrightarrow> non_numeric_price r"
proof (cases "price r")
  case (Str s)
  then show ?thesis
    by (simp add: unparsable_def non_numeric_price_def clean_price_def astype_str_def isna_def)
next
  case (Num f)
  then show ?thesis
    by (simp add: unparsable_def non_numeric_price_def clean_price_Num_isna)
qed

lemma preprocess_data_Inr:
  assumes "preprocess_data parse df = Inr out"
  shows "rating_col out = rating_col df" "date_col out = date_col df"
    "rows out = map (clean_row parse (date_col df)) (filter (\<lambda>r. \<not> unparsable r) (rows df))"
proof -
  have "rating_col out = rating_col df \<and> date_col out = date_col df \<and>
    rows out = map (clean_row parse (date_col df)) (filter (\<lambda>r. \<not> unparsable r) (rows df))"
  proof (cases "rows df = []")
    case True
    with assms show ?thesis by (auto simp add: preprocess_data_def)
  next
    case False
    with assms have "rating_col df"
      by (auto simp add: preprocess_data_def Let_def split: if_splits)
    from preprocess_data_rows [OF this, of parse] assms this show ?thesis by auto
  qed
  then show "rating_col out = rating_col df" "date_col out = date_col df"
    "rows out = map (clean_row parse (date_col df)) (filter (\<lambda>r. \<not> unparsable r) (rows df))"
    by simp_all
qed

lemma preprocess_data_Inl:
  "preprocess_data parse df = Inl e \<longleftrightarrow>
     rows df \<noteq> [] \<and> \<not> rating_col df \<and> e = KeyError (ustr ''rating'')"
  by (auto simp add: preprocess_data_def Let_def)

lemma preprocess_data_returns:
  "(\<exists>out. preprocess_data parse df = Inr out) \<longleftrightarrow> rating_col df \<or> rows df = []"
  by (auto simp add: preprocess_data_def Let_def)

lemma float_scale_45000: "float_scale 45000 = 0"
  by (simp add: float_scale_def is_integer_def)

lemma nat_digits_45000: "nat_digits 45000 = [52, 53, 48, 48, 48]"
  by (simp add: nat_digits.simps)

lemma fin_str_45000: "fin_str 45000 = [52, 53, 48, 48, 48, 46, 48]"
  unfolding fin_str_def Let_def by (simp add: float_scale_45000 nat_digits_45000)

lemma mixed_prices:
  "clean_price (price num_row) = Fin 45000"
  "clean_price (price nan_row) = NaN"
  by (simp_all add: num_row_def nan_row_def clean_price_def astype_str_def fin_str_45000 scan_defs)

lemma mixed_non_numeric:
  "\<not> non_numeric_price ex_row1" "non_numeric_price ex_row2" "\<not> non_numeric_price num_row"
  "non_numeric_price nan_row"
  using ex_prices
  by (simp_all add: non_numeric_price_def ex_row1_def ex_row2_def num_row_def nan_row_def
      clean_price_def astype_str_def)

subsection \<open>The rows that are dropped\<close>

text \<open>
  C3. Preprocessing drops exactly the rows whose price is non-numeric after stripping, and
  raises nothing for them: the frame it returns has as many rows as the input less the
  rows with a non-numeric price, and its rows are the other rows, each cleaned, in their
  order. Whether it returns a frame does not depend on any price: it returns one for every
  frame that has a rating column or no row, and the only error it raises is the
  \<^verbatim>\<open>KeyError\<close> of line 80, on a frame with rows and without a rating column.
\<close>

theorem unparsable_rows_dropped:
  "(\<forall>out. preprocess_data parse df = Inr out \<longrightarrow>
      length (rows out) = length (rows df) - length (filter non_numeric_price (rows df)) \<and>
      rows out =
        map (clean_row parse (date_col df)) (filter (\<lambda>r. \<not> non_numeric_price r) (rows df))) \<and>
   (rating_col df \<or> rows df = [] \<longrightarrow> (\<exists>out. preprocess_data parse df = Inr out)) \<and>
   (\<not> rating_col df \<and> rows df \<noteq> [] \<longrightarrow>
      preprocess_data parse df = Inl (KeyError (ustr ''rating'')))"
proof -
  have len: "length (filter (\<lambda>r. \<not> non_numeric_price r) (rows df)) =
        length (rows df) - length (filter non_numeric_price (rows df))"
    using sum_length_filter_compl [of non_numeric_price "rows df"] by simp
  have "length (rows out) = length (rows df) - length (filter non_numeric_price (rows df)) \<and>
        rows out =
          map (clean_row parse (date_col df)) (filter (\<lambda>r. \<not> non_numeric_price r) (rows df))"
    if "preprocess_data parse df = Inr out" for out
    using preprocess_data_Inr(3) [OF that] len by (simp add: unparsable_iff)
  moreover have "rating_col df \<or> rows df = [] \<longrightarrow> (\<exists>out. preprocess_data parse df = Inr out)"
    by (simp add: preprocess_data_returns)
  moreover have "\<not> rating_col df \<and> rows df \<noteq> [] \<longrightarrow>
      preprocess_data parse df = Inl (KeyError (ustr ''rating''))"
    by (simp add: preprocess_data_Inl)
  ultimately show ?thesis by blast
qed

text \<open>
  The frame \<open>mixed_raw\<close> has four rows; the string \<^verbatim>\<open>N/A\<close> and the missing number are
  dropped, the decorated string and the number 45000 are kept.
\<close>

lemma mixed_preprocess:
  "preprocess_data no_dates mixed_raw =
     Inr \<lparr>rating_col = True, date_col = False,
          rows = [clean_row no_dates False ex_row1, clean_row no_dates False num_row]\<rparr>"
proof -
  have "rating_col mixed_raw" by (simp add: mixed_raw_def)
  from preprocess_data_rows [OF this, of no_dates] show ?thesis
    by (simp add: mixed_raw_def unparsable_iff mixed_non_numeric)
qed

theorem unparsable_rows_dropped_witness:
  "preprocess_data no_dates mixed_raw =
     Inr \<lparr>rating_col = True, date_col = False,
          rows = [clean_row no_dates False ex_row1, clean_row no_dates False num_row]\<rparr> \<and>
   length (rows mixed_raw) = 4 \<and>
   filter non_numeric_price (rows mixed_raw) = [ex_row2, nan_row] \<and>
   filter (\<lambda>r. \<not> non_numeric_price r) (rows mixed_raw) = [ex_row1, num_row] \<and>
   price (clean_row no_dates False ex_row1) = Fin 123456 \<and>
   price (clean_row no_dates False num_row) = Fin 45000 \<and>
   \<not> rating_col unrated_raw \<and> rows unrated_raw \<noteq> [] \<and>
   preprocess_data no_dates unrated_raw = Inl (KeyError (ustr ''rating''))"
proof -
  have f: "filter non_numeric_price (rows mixed_raw) = [ex_row2, nan_row]"
    "filter (\<lambda>r. \<not> non_numeric_price r) (rows mixed_raw) = [ex_row1, num_row]"
    by (simp_all add: mixed_raw_def mixed_non_numeric)
  have p: "price (clean_row no_dates False ex_row1) = Fin 123456"
    "price (clean_row no_dates False num_row) = Fin 45000"
    by (simp_all add: clean_row_def ex_prices mixed_prices)
  have u: "\<not> rating_col unrated_raw" "rows unrated_raw \<noteq> []"
    by (simp_all add: unrated_raw_def)
  have l: "length (rows mixed_raw) = 4" by (simp add: mixed_raw_def)
  from unparsable_rows_dropped [of no_dates mixed_raw] unparsable_rows_dropped [of no_dates unrated_raw]
    u mixed_preprocess f p l
  show ?thesis by simp
qed

subsection \<open>Decorated price strings\<close>


text \<open>
  The rupee sign followed by \<^verbatim>\<open>1,23,456\<close> becomes the number 123456, and followed by
  \<^verbatim>\<open>49,999.50\<close> the number 49999.5.
\<close>

lemma frac_preprocess: "preprocess_data no_dates frac_raw = Inr frac_table"
proof -
  have "rating_col frac_raw" by (simp add: frac_raw_def)
  from preprocess_data_rows [OF this, of no_dates] show ?thesis
    by (simp add: frac_raw_def frac_table_def unparsable_def isna_def frac_prices)
qed




subsection \<open>The prices that are retained\<close>

text \<open>
  C6, as stated, fails: nothing in \<^verbatim>\<open>preprocess_data\<close> looks at the sign of a price. The
  price string \<^verbatim>\<open>-500\<close> is a number for \<^verbatim>\<open>pd.to_numeric\<close>, so the row is retained with the
  negative price.
\<close>

theorem negative_price_retained:
  "preprocess_data no_dates ex_raw =
     Inr \<lparr>rating_col = True, date_col = False,
          rows = [clean_row no_dates False ex_row1, clean_row no_dates False ex_row3]\<rparr> \<and>
   price (clean_row no_dates False ex_row3) = Fin (- 500) \<and>
   \<not> fle (Fin 0) (price (clean_row no_dates False ex_row3))"
proof -
  have "rating_col ex_raw" by (simp add: ex_raw_def)
  from preprocess_data_rows [OF this, of no_dates] show ?thesis
    by (simp add: ex_raw_def unparsable_def isna_def ex_prices clean_row_def)
qed

text \<open>
  C6, amended. Every row that preprocessing retains has a price that is present (not
  NaN), and is the cleaned form of an input row whose price could be parsed: a row whose
  price fails parsing has no counterpart in the output.
\<close>

theorem retained_price_present:
  assumes "preprocess_data parse df = Inr out" and "r \<in> set (rows out)"
  shows "\<not> isna (price r) \<and>
         (\<exists>r0 \<in> set (rows df). \<not> unparsable r0 \<and> r = clean_row parse (date_col df) r0)"
proof (cases "rows df = []")
  case True
  with assms show ?thesis by (auto simp add: preprocess_data_def)
next
  case False
  with assms(1) have "rating_col df"
    by (auto simp add: preprocess_data_def Let_def split: if_splits)
  from preprocess_data_rows [OF this, of parse] assms show ?thesis
    by (auto simp add: unparsable_def clean_row_def)
qed

theorem retained_price_present_witness:
  "preprocess_data no_dates ex_raw =
     Inr \<lparr>rating_col = True, date_col = False,
          rows = [clean_row no_dates False ex_row1, clean_row no_dates False ex_row3]\<rparr> \<and>
   \<not> isna (price (clean_row no_dates False ex_row3)) \<and>
   \<not> unparsable ex_row3 \<and> unparsable ex_row2"
proof -
  have "rating_col ex_raw" by (simp add: ex_raw_def)
  from preprocess_data_rows [OF this, of no_dates]
  have p: "preprocess_data no_dates ex_raw =
     Inr \<lparr>rating_col = True, date_col = False,
          rows = [clean_row no_dates False ex_row1, clean_row no_dates False ex_row3]\<rparr>"
    by (simp add: ex_raw_def unparsable_def isna_def ex_prices)
  from retained_price_present [OF p, of "clean_row no_dates False ex_row3"] p
  show ?thesis by (simp add: unparsable_def isna_def ex_prices)
qed

section \<open>The default price interval\<close>

lemma frac_table_prices: "map price (rows frac_table) = [Fin 40000, Fin (99999 / 2)]"
  by (simp add: frac_table_def clean_row_def frac_prices)

lemma frac_range: "full_price_range frac_table = Inr (40000, 49999)"
  by (simp add: full_price_range_def frac_table_prices col_min_def col_max_def isna_def trunc_def
      floor_eq_iff)

text \<open>
  C4. With the sentinel in every selection and the price interval that \<^verbatim>\<open>main\<close> derives
  from the frame's own minimum and maximum, the filter engine should return the frame as
  it is. \<^verbatim>\<open>main\<close> truncates both ends with \<^verbatim>\<open>int\<close>, so a highest price with a fraction lies
  above the upper end: on \<open>frac_raw\<close> the interval is 40000 to 49999 and the row priced
  49999.50 is filtered out.
\<close>

theorem full_range_drops_fractional_maximum:
  "preprocess_data no_dates frac_raw = Inr frac_table \<and>
   full_price_range frac_table = Inr (40000, 49999) \<and>
   rows (apply_filters frac_table (all_criteria (40000, 49999))) =
     [clean_row no_dates False frac_row1] \<and>
   apply_filters frac_table (all_criteria (40000, 49999)) \<noteq> frac_table"
proof -
  have s: "survives (all_criteria (40000, 49999)) (clean_row no_dates False frac_row1)"
    "\<not> survives (all_criteria (40000, 49999)) (clean_row no_dates False frac_row2)"
    by (simp_all add: survives_def all_criteria_def brand_active_def platform_active_def
        city_active_def price_ok_def clean_row_def frac_prices)
  have r: "rows (apply_filters frac_table (all_criteria (40000, 49999))) =
     [clean_row no_dates False frac_row1]"
    by (simp add: apply_filters_mask frac_table_def s)
  moreover have "rows frac_table \<noteq> [clean_row no_dates False frac_row1]"
    by (simp add: frac_table_def)
  ultimately have "apply_filters frac_table (all_criteria (40000, 49999)) \<noteq> frac_table"
    by metis
  with r show ?thesis by (simp add: frac_preprocess frac_range)
qed

section \<open>The rating view\<close>

text \<open>
  C8. When the frame has no rating column or every rating is missing, the builder shows
  the notice and returns \<^verbatim>\<open>None\<close>; when at least one rating is present it shows nothing
  and hands over, for every row in order, the rating, the price, the platform, the price
  as size, the brand and the model.
\<close>

theorem scatter_unavailable_or_points:
  "((\<not> rating_col df \<or> list_all (\<lambda>r. isna (rating r)) (rows df)) \<longrightarrow>
      create_rating_price_scatter df = ([rating_warning], None)) \<and>
   ((rating_col df \<and> \<not> list_all (\<lambda>r. isna (rating r)) (rows df)) \<longrightarrow>
      (\<exists>pts. create_rating_price_scatter df = ([], Some pts) \<and>
         map sp_x pts = map rating (rows df) \<and> map sp_y pts = map price (rows df) \<and>
         map sp_color pts = map platform (rows df) \<and> map sp_size pts = map price (rows df) \<and>
         map sp_hover_brand pts = map brand (rows df) \<and>
         map sp_hover_model pts = map model (rows df)))"
  by (simp add: create_rating_price_scatter_def scatter_point_of_def comp_def)

lemma frac_ratings: "map rating (rows frac_table) = [Fin (9 / 2), Fin (41 / 10)]"
  by (simp add: frac_table_def clean_row_def frac_row1_def frac_row2_def to_numeric_def scan_defs)

theorem scatter_unavailable_or_points_witness:
  "list_all (\<lambda>r. isna (rating r)) (rows unrated_table) \<and>
   create_rating_price_scatter unrated_table = ([rating_warning], None) \<and>
   rating_col frac_table \<and> \<not> list_all (\<lambda>r. isna (rating r)) (rows frac_table) \<and>
   (\<exists>pts. create_rating_price_scatter frac_table = ([], Some pts) \<and>
      map sp_x pts = [Fin (9 / 2), Fin (41 / 10)] \<and>
      map sp_y pts = [Fin 40000, Fin (99999 / 2)] \<and>
      map sp_size pts = [Fin 40000, Fin (99999 / 2)])"
proof -
  have a: "list_all (\<lambda>r. isna (rating r)) (rows unrated_table)"
    by (simp add: unrated_table_def frac_table_def set_rating_def isna_def)
  have b: "rating_col frac_table" by (simp add: frac_table_def)
  have c: "\<not> list_all (\<lambda>r. isna (rating r)) (rows frac_table)"
    using frac_ratings by (auto simp add: list_all_iff isna_def frac_table_def)
  from scatter_unavailable_or_points [of unrated_table] scatter_unavailable_or_points [of frac_table]
    a b c show ?thesis
    by (auto simp add: frac_ratings frac_table_prices)
qed

section \<open>The placeholder trend\<close>

lemma randint_values: "fst (randint low high n g) = map (\<lambda>i. low + int (g i mod nat (high - low))) [0..<n]"
  by (simp add: randint_def)









section \<open>Properties of the aggregator\<close>

subsection \<open>Whole numbers in float64\<close>

declare halvings.simps [simp del] doublings.simps [simp del]













subsection \<open>The ranking\<close>







lemma stat_platform_stat [simp]: "stat_platform (platform_stat g) = fst g"
  by (simp add: platform_stat_def)












subsection \<open>The ranking on two frames\<close>













section \<open>The filter engine on an example\<close>

lemma frac_clean_fields:
  "brand (clean_row no_dates False frac_row1) = ustr ''Dell''"
  "brand (clean_row no_dates False frac_row2) = ustr ''HP''"
  "city (clean_row no_dates False frac_row1) = ustr ''Bhopal''"
  "price (clean_row no_dates False frac_row1) = Fin 40000"
  "price (clean_row no_dates False frac_row2) = Fin (99999 / 2)"
  by (simp_all add: clean_row_def frac_prices) (simp_all add: frac_row1_def frac_row2_def)

lemma dell_survivors:
  "filter (survives dell_criteria) (rows frac_table) = [clean_row no_dates False frac_row1]"
proof -
  have "survives dell_criteria (clean_row no_dates False frac_row1)"
    by (simp add: survives_def dell_criteria_def brand_active_def brand_ok_def
        platform_active_def city_active_def city_ok_def price_ok_def frac_clean_fields)
  moreover have "\<not> survives dell_criteria (clean_row no_dates False frac_row2)"
    by (simp add: survives_def dell_criteria_def brand_active_def brand_ok_def
        frac_clean_fields All_sentinel_def ustr_def)
  ultimately show ?thesis by (simp add: frac_table_def)
qed

theorem filters_conjunctive_any_order_witness:
  "mset [city_filter dell_criteria, brand_filter dell_criteria, platform_filter dell_criteria,
         price_filter dell_criteria] = mset (filter_steps dell_criteria) \<and>
   rows (apply_filters frac_table dell_criteria) = [clean_row no_dates False frac_row1] \<and>
   run_steps [city_filter dell_criteria, brand_filter dell_criteria, platform_filter dell_criteria,
         price_filter dell_criteria] frac_table = apply_filters frac_table dell_criteria"
proof -
  have m: "mset [city_filter dell_criteria, brand_filter dell_criteria,
      platform_filter dell_criteria, price_filter dell_criteria] = mset (filter_steps dell_criteria)"
    by (simp add: filter_steps_def)
  from filters_conjunctive_any_order [OF m, of frac_table] m show ?thesis
    by (simp add: dell_survivors)
qed

theorem filter_only_removes_rows_witness:
  "rows (apply_filters frac_table dell_criteria) = [clean_row no_dates False frac_row1] \<and>
   subseq [clean_row no_dates False frac_row1] (rows frac_table) \<and>
   rating_col (apply_filters frac_table dell_criteria) = rating_col frac_table"
proof -
  have "rows (apply_filters frac_table dell_criteria) = [clean_row no_dates False frac_row1]"
    by (simp add: apply_filters_mask dell_survivors)
  with filter_only_removes_rows [of frac_table dell_criteria] show ?thesis
    by simp
qed

end
